theory Spec2Isabelle
  imports Main "HOL-Library.Word"
begin

section \<open>The activity directory client (src/static/app.js)\<close>

text \<open>
  The script runs in a browser page. It keeps no data of its own: everything it knows
  is in the page (the \<^verbatim>\<open>#activities-list\<close> container, the \<^verbatim>\<open>#activity\<close> select, the
  \<^verbatim>\<open>#signup-form\<close> with its \<^verbatim>\<open>#email\<close> input, the \<^verbatim>\<open>#message\<close> banner), in the
  requests it has sent and in the timers it has started. The model passes that state
  along explicitly. Every network reply is an argument of the function that awaits it,
  together with the time the await takes.
\<close>

subsection \<open>Data received from the server\<close>

text \<open>
  \<^verbatim>\<open>GET /activities\<close> answers with an object that maps an activity name to its details.
  \<^verbatim>\<open>Object.entries\<close> turns it into a list of (name, details) pairs, one per key; that
  list is the collection of the model. The details have the shape the endpoint
  documents: two strings, an integer and an array of strings; an answer of another
  shape is outside the model. \<open>max_participants\<close> is the integer as the body writes it,
  of any size; what the script computes with is the number \<^verbatim>\<open>response.json()\<close> makes
  of it (\<open>number_value\<close> below).
\<close>

record activity =
  description :: string
  schedule :: string
  max_participants :: int
  participants :: "string list"

type_synonym activities = "(string \<times> activity) list"

text \<open>
  The bodies of the signup and unregister replies are read field by field
  (\<^verbatim>\<open>result.message\<close>, \<^verbatim>\<open>result.detail\<close>), so they stay JavaScript values. \<open>Undefined\<close> is
  what reading a missing property gives; \<^verbatim>\<open>JSON.parse\<close> itself never produces it.
  \<open>Num neg m\<close> is the integer \<open>m\<close>, negated when \<open>neg\<close> is set; \<open>m\<close> is below \<open>2^53\<close>, so
  it is a double and prints as its decimal digits. Other numbers (fractions, larger
  magnitudes) are outside the model. The keys of an \<open>Obj\<close> are distinct, as
  \<^verbatim>\<open>JSON.parse\<close> leaves them.
\<close>

datatype js =
    Undefined
  | Null
  | Bool bool
  | Num bool "53 word"
  | Str string
  | Arr "js list"
  | Obj "(string \<times> js) list"

text \<open>
  A reply to \<^verbatim>\<open>fetch\<close>: the promise rejects (\<open>Network_error\<close>), or a response arrives with
  its \<^verbatim>\<open>ok\<close> flag and a body that \<^verbatim>\<open>response.json()\<close> parses (\<open>Some\<close>) or rejects
  (\<open>None\<close>).
\<close>

datatype 'a http = Network_error | Response bool "'a option"

datatype exn = Fetch_failed | Json_syntax_error | TypeError

text \<open>
  A request is kept by its method and path. The activity name and the address are the
  two values the listeners pass through \<^verbatim>\<open>encodeURIComponent\<close> into the path and the
  query: \<open>POST_signup a e\<close> is \<^verbatim>\<open>POST /activities/a/signup?email=e\<close>, and
  \<open>DELETE_unregister a e\<close> is \<^verbatim>\<open>DELETE /activities/a/unregister?email=e\<close>.
\<close>

datatype request =
    GET_activities
  | POST_signup string string
  | DELETE_unregister string string

subsection \<open>Numbers\<close>

text \<open>
  A number of JavaScript is a double. The numbers the script computes with are
  integers or infinite: \<open>Finite i\<close> is the double of value \<open>i\<close>.

  \<open>round_to_double x\<close> is the multiple of a power of two with a significand of 53 bits
  nearest to \<open>x\<close>, ties to the even significand: every integer up to
  \<open>2^53 = 9007199254740992\<close> in magnitude is its own double, and a larger one loses its
  low bits. \<open>number_value x\<close> is the number for the exact value \<open>x\<close>: the rounded value,
  or an infinity when that is \<open>2^1024\<close> or more in magnitude. It is what
  \<^verbatim>\<open>response.json()\<close> makes of an integer of the body, and what an arithmetic operator
  makes of its exact result. (For an integer written with more than 20 digits the
  language lets a parser round a neighbouring decimal instead; the model rounds the
  integer itself.)
\<close>

datatype number = Finite int | Infinity | Minus_infinity

function bit_length :: "int \<Rightarrow> nat" where
  "bit_length n = (if n \<le> 0 then 0 else Suc (bit_length (n div 2)))"
  by pat_completeness auto
termination
  by (relation "measure nat") auto

declare bit_length.simps [simp del]

definition round_to_double :: "int \<Rightarrow> int" where
  "round_to_double x =
     (let a = \<bar>x\<bar> in
      if a \<le> 9007199254740992 then x
      else
        let e = bit_length a - 53;
            q = a div 2 ^ e;
            r = a mod 2 ^ e;
            h = 2 ^ (e - 1);
            q' = (if h < r \<or> (r = h \<and> odd q) then q + 1 else q)
        in sgn x * (q' * 2 ^ e))"

definition number_value :: "int \<Rightarrow> number" where
  "number_value x =
     (let r = round_to_double x in
      if 2 ^ 1024 \<le> r then Infinity
      else if r \<le> - (2 ^ 1024) then Minus_infinity
      else Finite r)"

text \<open>
  \<^verbatim>\<open>a - b\<close> for a number \<open>a\<close> and the length \<open>b\<close> of an array (an integer below \<open>2^32\<close>).
\<close>

fun js_minus :: "number \<Rightarrow> int \<Rightarrow> number" where
  "js_minus (Finite a) b = number_value (a - b)"
| "js_minus Infinity b = Infinity"
| "js_minus Minus_infinity b = Minus_infinity"

subsection \<open>The page\<close>

record option_el =
  opt_value :: string
  opt_text :: string

text \<open>
  The click listener of a delete button closes over the activity name and the
  participant of its row; \<open>btn_activity\<close> and \<open>btn_participant\<close> are that closure.
\<close>

record delete_btn =
  btn_title :: string
  btn_activity :: string
  btn_participant :: string

datatype li =
    Participant_item string delete_btn
  | No_participants string

record card =
  card_name :: string
  card_description :: string
  card_schedule :: string
  card_spots :: number
  card_participants :: "li list"

datatype node = Activity_card card | Paragraph string

text \<open>
  \<open>pending\<close> counts the calls of \<open>fetchActivities\<close> whose reply has not arrived yet.
\<close>

record page =
  activitiesList :: "node list"
  activitySelect :: "option_el list"
  activity_value :: string
  email_value :: string
  email_default :: string
  messageDiv_text :: string
  messageDiv_class :: "string list"
  requests :: "request list"
  pending :: nat
  timers :: "nat list"
  now :: nat
  console :: "string list"

subsection \<open>Rendering one activity\<close>

text \<open>
  \<^verbatim>\<open>const spotsLeft = details.max_participants - details.participants.length;\<close>
\<close>

definition spotsLeft :: "activity \<Rightarrow> number" where
  "spotsLeft details =
     js_minus (number_value (max_participants details)) (int (length (participants details)))"

text \<open>
  The body of \<^verbatim>\<open>details.participants.forEach\<close>: one \<^verbatim>\<open>li.participant-item\<close> with the
  participant in a span and a delete button whose listener unregisters this participant
  from this activity, appended to the list built so far.
\<close>

definition deleteBtn :: "string \<Rightarrow> string \<Rightarrow> delete_btn" where
  "deleteBtn name participant =
     \<lparr>btn_title = ''Unregister '' @ participant,
      btn_activity = name,
      btn_participant = participant\<rparr>"

definition append_participant :: "string \<Rightarrow> li list \<Rightarrow> string \<Rightarrow> li list" where
  "append_participant name lis participant =
     lis @ [Participant_item participant (deleteBtn name participant)]"

text \<open>
  \<^verbatim>\<open>if (Array.isArray(details.participants) && details.participants.length > 0)\<close>: the
  participants of the model are an array, so the test is on the length alone.
\<close>

definition participantsList :: "string \<Rightarrow> activity \<Rightarrow> li list" where
  "participantsList name details =
     (if 0 < length (participants details)
      then foldl (append_participant name) [] (participants details)
      else [No_participants ''No participants yet''])"

text \<open>
  The card keeps the values the template interpolates (name, description, schedule and
  the number of spots left) rather than the markup text around them.
\<close>

definition activityCard :: "string \<Rightarrow> activity \<Rightarrow> card" where
  "activityCard name details =
     \<lparr>card_name = name,
      card_description = description details,
      card_schedule = schedule details,
      card_spots = spotsLeft details,
      card_participants = participantsList name details\<rparr>"

subsection \<open>The banner and its timer\<close>

text \<open>
  \<^verbatim>\<open>messageDiv.className = c\<close> replaces the whole class list by \<open>[c]\<close>;
  \<^verbatim>\<open>classList.add\<close> and \<^verbatim>\<open>classList.remove\<close> add and remove one class. The style sheet
  hides an element of class \<^verbatim>\<open>hidden\<close>.

  \<^verbatim>\<open>setTimeout(() => messageDiv.classList.add("hidden"), 5000)\<close> is the only
  timer of the script, so a pending timer is the time it is due. \<open>elapse d\<close> lets \<open>d\<close>
  milliseconds pass: the callbacks due by then run, and the clock moves. A timer runs
  exactly when it is due (a browser promises only that it does not run earlier).
\<close>

definition classList_add_hidden :: "page \<Rightarrow> page" where
  "classList_add_hidden s =
     (if ''hidden'' \<in> set (messageDiv_class s) then s
      else s\<lparr>messageDiv_class := messageDiv_class s @ [''hidden'']\<rparr>)"

definition classList_remove_hidden :: "page \<Rightarrow> page" where
  "classList_remove_hidden s =
     s\<lparr>messageDiv_class := filter (\<lambda>c. c \<noteq> ''hidden'') (messageDiv_class s)\<rparr>"

definition setTimeout_hide :: "page \<Rightarrow> page" where
  "setTimeout_hide s = s\<lparr>timers := timers s @ [now s + 5000]\<rparr>"

definition elapse :: "nat \<Rightarrow> page \<Rightarrow> page" where
  "elapse d s =
     (let t = now s + d;
          due = filter (\<lambda>x. x \<le> t) (timers s);
          s' = foldl (\<lambda>p x. classList_add_hidden p) s due
      in s'\<lparr>timers := filter (\<lambda>x. \<not> x \<le> t) (timers s), now := t\<rparr>)"

subsection \<open>fetchActivities\<close>

definition defaultOption :: option_el where
  "defaultOption = \<lparr>opt_value = '''', opt_text = ''-- Select an activity --''\<rparr>"

text \<open>
  The body of \<^verbatim>\<open>Object.entries(activities).forEach\<close>: the card goes to the end of the
  list, the option to the end of the select.
\<close>

definition render_entry :: "page \<Rightarrow> string \<times> activity \<Rightarrow> page" where
  "render_entry s entry =
     s\<lparr>activitiesList := activitiesList s @ [Activity_card (activityCard (fst entry) (snd entry))],
       activitySelect := activitySelect s @ [\<lparr>opt_value = fst entry, opt_text = fst entry\<rparr>]\<rparr>"

text \<open>
  \<open>fetchActivities_call\<close> is the function up to its first \<^verbatim>\<open>await\<close>: the request
  leaves, and one more reply is awaited. \<open>fetchActivities_try\<close> is the rest of the
  \<^verbatim>\<open>try\<close> block, run when the reply is there; \<open>fetchActivities_catch\<close> is the \<^verbatim>\<open>catch\<close>
  block. Nothing before the two awaits that can throw changes the page, so the \<^verbatim>\<open>catch\<close>
  block starts from the page the reply found. The \<^verbatim>\<open>ok\<close> flag of the response is never
  read.
\<close>

definition fetchActivities_call :: "page \<Rightarrow> page" where
  "fetchActivities_call s =
     s\<lparr>requests := requests s @ [GET_activities], pending := pending s + 1\<rparr>"

definition fetchActivities_try :: "activities http \<Rightarrow> page \<Rightarrow> exn + page" where
  "fetchActivities_try reply s =
     (case reply of
        Network_error \<Rightarrow> Inl Fetch_failed
      | Response ok None \<Rightarrow> Inl Json_syntax_error
      | Response ok (Some acts) \<Rightarrow>
          Inr (foldl render_entry
                 (s\<lparr>activitiesList := [], activitySelect := [defaultOption],
                    activity_value := opt_value defaultOption\<rparr>)
                 acts))"

definition fetchActivities_catch :: "page \<Rightarrow> page" where
  "fetchActivities_catch s =
     s\<lparr>activitiesList := [Paragraph ''Failed to load activities. Please try again later.''],
       console := console s @ [''Error fetching activities:'']\<rparr>"

text \<open>The reply to a call has arrived: the call runs to its end and awaits nothing more.\<close>

definition fetchActivities_resume :: "activities http \<Rightarrow> page \<Rightarrow> page" where
  "fetchActivities_resume reply s =
     (case fetchActivities_try reply s of
        Inr s' \<Rightarrow> s'
      | Inl e \<Rightarrow> fetchActivities_catch s)
     \<lparr>pending := pending s - 1\<rparr>"

text \<open>The whole call, as \<^verbatim>\<open>await fetchActivities()\<close> sees it: the reply takes \<open>d\<close> ms.\<close>

definition fetchActivities :: "nat \<Rightarrow> activities http \<Rightarrow> page \<Rightarrow> page" where
  "fetchActivities d reply s = fetchActivities_resume reply (elapse d (fetchActivities_call s))"

text \<open>
  A call that was not awaited ends later, on its own: after \<open>d\<close> ms the reply to a call
  still pending arrives. With no call pending there is no reply to wait for, and nothing
  happens.
\<close>

definition fetchActivities_settle :: "nat \<Rightarrow> activities http \<Rightarrow> page \<Rightarrow> page" where
  "fetchActivities_settle d reply s =
     (if 0 < pending s then fetchActivities_resume reply (elapse d s) else s)"

subsection \<open>JavaScript values in the message banner\<close>

text \<open>
  Reading a property. The script reads \<^verbatim>\<open>message\<close> and \<^verbatim>\<open>detail\<close> only: an object
  has them or not, no boolean, number, string or array has them, and reading any
  property of \<^verbatim>\<open>null\<close> or \<^verbatim>\<open>undefined\<close> throws a TypeError.
\<close>

fun get_prop :: "js \<Rightarrow> string \<Rightarrow> exn + js" where
  "get_prop Undefined k = Inl TypeError"
| "get_prop Null k = Inl TypeError"
| "get_prop (Obj kvs) k = Inr (case map_of kvs k of None \<Rightarrow> Undefined | Some v \<Rightarrow> v)"
| "get_prop v k = Inr Undefined"

text \<open>The operand test of \<^verbatim>\<open>a || b\<close>.\<close>

fun truthy :: "js \<Rightarrow> bool" where
  "truthy Undefined = False"
| "truthy Null = False"
| "truthy (Bool b) = b"
| "truthy (Num neg m) = (m \<noteq> 0)"
| "truthy (Str s) = (s \<noteq> [])"
| "truthy (Arr xs) = True"
| "truthy (Obj kvs) = True"

definition js_or :: "js \<Rightarrow> js \<Rightarrow> js" where
  "js_or a b = (if truthy a then a else b)"

text \<open>
  ToString. An integer below \<open>2^53\<close> in magnitude prints as its decimal digits, minus
  zero as \<^verbatim>\<open>0\<close>. An array joins the strings of its elements with commas, \<^verbatim>\<open>null\<close> and
  \<^verbatim>\<open>undefined\<close> elements counting as empty. A parsed object is converted by the
  \<^verbatim>\<open>toString\<close> it finds: the one of \<^verbatim>\<open>Object.prototype\<close>, which gives
  \<^verbatim>\<open>[object Object]\<close>, unless the object has a key \<^verbatim>\<open>toString\<close> of its own; the value
  under that key is no function, and such an object has no primitive value: the
  conversion throws a TypeError.
\<close>

fun show_nat :: "nat \<Rightarrow> string" where
  "show_nat n =
     (if n < 10 then [''0123456789'' ! n]
      else show_nat (n div 10) @ [''0123456789'' ! (n mod 10)])"

declare show_nat.simps [simp del]

fun join_comma :: "string list \<Rightarrow> string" where
  "join_comma [] = []"
| "join_comma [x] = x"
| "join_comma (x # y # ys) = x @ '','' @ join_comma (y # ys)"

fun js_to_string :: "js \<Rightarrow> exn + string"
  and elements_to_strings :: "js list \<Rightarrow> exn + string list" where
  "js_to_string Undefined = Inr ''undefined''"
| "js_to_string Null = Inr ''null''"
| "js_to_string (Bool b) = Inr (if b then ''true'' else ''false'')"
| "js_to_string (Num neg m) = Inr ((if neg \<and> m \<noteq> 0 then ''-'' else []) @ show_nat (unat m))"
| "js_to_string (Str s) = Inr s"
| "js_to_string (Arr xs) =
     (case elements_to_strings xs of
        Inl e \<Rightarrow> Inl e
      | Inr ts \<Rightarrow> Inr (join_comma ts))"
| "js_to_string (Obj kvs) =
     (if ''toString'' \<in> fst ` set kvs then Inl TypeError else Inr ''[object Object]'')"
| "elements_to_strings [] = Inr []"
| "elements_to_strings (x # xs) =
     (case (if x = Undefined \<or> x = Null then Inr [] else js_to_string x) of
        Inl e \<Rightarrow> Inl e
      | Inr t \<Rightarrow>
          (case elements_to_strings xs of
             Inl e \<Rightarrow> Inl e
           | Inr ts \<Rightarrow> Inr (t # ts)))"

text \<open>
  The value \<^verbatim>\<open>messageDiv.textContent = v\<close> stores. The attribute is a nullable string
  of the DOM (\<^verbatim>\<open>DOMString? textContent\<close>): \<^verbatim>\<open>null\<close> and \<^verbatim>\<open>undefined\<close> both convert to
  null, which the setter takes as the empty string; any other value is converted by
  ToString, and when that throws the assignment throws and stores nothing.
\<close>

fun textContent :: "js \<Rightarrow> exn + string" where
  "textContent Undefined = Inr []"
| "textContent Null = Inr []"
| "textContent v = js_to_string v"

subsection \<open>The click listener of a delete button\<close>

text \<open>
  \<open>unregister_try\<close> is the \<^verbatim>\<open>try\<close> block from the point where the reply is there. The
  first statement of either branch, the assignment to \<^verbatim>\<open>textContent\<close>, can throw: in
  reading the property or in converting its value. On a response with \<^verbatim>\<open>ok\<close> set,
  \<^verbatim>\<open>fetchActivities()\<close> is called and not awaited: the request for the list leaves, the
  listener goes on to show the banner and start the timer, and the reply to that request
  is handled later (\<open>fetchActivities_settle\<close>).
\<close>

definition unregister_try :: "js http \<Rightarrow> page \<Rightarrow> exn + page" where
  "unregister_try reply s =
     (case reply of
        Network_error \<Rightarrow> Inl Fetch_failed
      | Response ok None \<Rightarrow> Inl Json_syntax_error
      | Response ok (Some result) \<Rightarrow>
          (case
             (if ok then
                (case get_prop result ''message'' of
                   Inl e \<Rightarrow> Inl e
                 | Inr m \<Rightarrow>
                     (case textContent m of
                        Inl e \<Rightarrow> Inl e
                      | Inr t \<Rightarrow>
                          Inr (fetchActivities_call
                                 (s\<lparr>messageDiv_text := t,
                                    messageDiv_class := [''success'']\<rparr>))))
              else
                (case get_prop result ''detail'' of
                   Inl e \<Rightarrow> Inl e
                 | Inr d \<Rightarrow>
                     (case textContent (js_or d (Str ''Failed to unregister'')) of
                        Inl e \<Rightarrow> Inl e
                      | Inr t \<Rightarrow>
                          Inr (s\<lparr>messageDiv_text := t,
                                 messageDiv_class := [''error'']\<rparr>))))
           of
             Inl e \<Rightarrow> Inl e
           | Inr s' \<Rightarrow> Inr (setTimeout_hide (classList_remove_hidden s'))))"

definition unregister_catch :: "page \<Rightarrow> page" where
  "unregister_catch s =
     (classList_remove_hidden
        (s\<lparr>messageDiv_text := ''Failed to unregister. Please try again.'',
           messageDiv_class := [''error'']\<rparr>))
     \<lparr>console := console s @ [''Error unregistering:'']\<rparr>"

text \<open>
  The listener of the button of \<open>participant\<close> in the card of \<open>name\<close>; the reply to its
  request takes \<open>d\<close> ms. The listener is an async function whose whole body is the
  \<^verbatim>\<open>try\<close> statement: whatever the \<^verbatim>\<open>try\<close> block throws, the \<^verbatim>\<open>catch\<close> block takes, and the
  listener ends with a page.
\<close>

definition deleteBtn_click :: "string \<Rightarrow> string \<Rightarrow> nat \<Rightarrow> js http \<Rightarrow> page \<Rightarrow> page" where
  "deleteBtn_click name participant d reply s =
     (let s1 = s\<lparr>requests := requests s @ [DELETE_unregister name participant]\<rparr>;
          s2 = elapse d s1
      in case unregister_try reply s2 of
           Inr s' \<Rightarrow> s'
         | Inl e \<Rightarrow> unregister_catch s2)"

text \<open>A click on a delete button runs the listener with what the button closed over.\<close>

definition click :: "delete_btn \<Rightarrow> nat \<Rightarrow> js http \<Rightarrow> page \<Rightarrow> page" where
  "click b d reply s = deleteBtn_click (btn_activity b) (btn_participant b) d reply s"

subsection \<open>The submit listener of the signup form\<close>

text \<open>
  \<^verbatim>\<open>signupForm.reset()\<close> gives every control of the form its default value back: the
  input the value of its \<^verbatim>\<open>value\<close> attribute in the markup (\<open>email_default\<close>), the select
  its first option (no option of this page is marked as selected).
\<close>

definition signupForm_reset :: "page \<Rightarrow> page" where
  "signupForm_reset s =
     s\<lparr>email_value := email_default s,
       activity_value := (case activitySelect s of [] \<Rightarrow> [] | x # xs \<Rightarrow> opt_value x)\<rparr>"

text \<open>
  \<open>signup_try\<close> is the \<^verbatim>\<open>try\<close> block from the point where the reply is there. Here the
  refetch is awaited: it takes \<open>d2\<close> ms and gets \<open>reply2\<close>, and only then does the listener
  go on to the timer.
\<close>

definition signup_try :: "js http \<Rightarrow> nat \<Rightarrow> activities http \<Rightarrow> page \<Rightarrow> exn + page" where
  "signup_try reply d2 reply2 s =
     (case reply of
        Network_error \<Rightarrow> Inl Fetch_failed
      | Response ok None \<Rightarrow> Inl Json_syntax_error
      | Response ok (Some result) \<Rightarrow>
          (case
             (if ok then
                (case get_prop result ''message'' of
                   Inl e \<Rightarrow> Inl e
                 | Inr m \<Rightarrow>
                     (case textContent m of
                        Inl e \<Rightarrow> Inl e
                      | Inr t \<Rightarrow>
                          Inr (fetchActivities d2 reply2
                                 (signupForm_reset
                                    (s\<lparr>messageDiv_text := t,
                                       messageDiv_class := [''success'']\<rparr>)))))
              else
                (case get_prop result ''detail'' of
                   Inl e \<Rightarrow> Inl e
                 | Inr d \<Rightarrow>
                     (case textContent (js_or d (Str ''An error occurred'')) of
                        Inl e \<Rightarrow> Inl e
                      | Inr t \<Rightarrow>
                          Inr (s\<lparr>messageDiv_text := t,
                                 messageDiv_class := [''error'']\<rparr>))))
           of
             Inl e \<Rightarrow> Inl e
           | Inr s' \<Rightarrow> Inr (setTimeout_hide (classList_remove_hidden s'))))"

definition signup_catch :: "page \<Rightarrow> page" where
  "signup_catch s =
     (classList_remove_hidden
        (s\<lparr>messageDiv_text := ''Failed to sign up. Please try again.'',
           messageDiv_class := [''error'']\<rparr>))
     \<lparr>console := console s @ [''Error signing up:'']\<rparr>"

definition signup_submit :: "nat \<Rightarrow> js http \<Rightarrow> nat \<Rightarrow> activities http \<Rightarrow> page \<Rightarrow> page" where
  "signup_submit d reply d2 reply2 s =
     (let email = email_value s;
          activity = activity_value s;
          s1 = s\<lparr>requests := requests s @ [POST_signup activity email]\<rparr>;
          s2 = elapse d s1
      in case signup_try reply d2 reply2 s2 of
           Inr s' \<Rightarrow> s'
         | Inl e \<Rightarrow> signup_catch s2)"

subsection \<open>Reading the page\<close>

text \<open>What a test of the page would look at: the cards of the list and the buttons of a card.\<close>

fun cards :: "node list \<Rightarrow> card list" where
  "cards [] = []"
| "cards (Activity_card c # ns) = c # cards ns"
| "cards (Paragraph p # ns) = cards ns"

fun delete_buttons :: "li list \<Rightarrow> delete_btn list" where
  "delete_buttons [] = []"
| "delete_buttons (Participant_item p b # ls) = b # delete_buttons ls"
| "delete_buttons (No_participants p # ls) = delete_buttons ls"

text \<open>The banner is on display when it does not carry the class \<^verbatim>\<open>hidden\<close>.\<close>

definition message_visible :: "page \<Rightarrow> bool" where
  "message_visible s = (''hidden'' \<notin> set (messageDiv_class s))"

subsection \<open>Example data\<close>

definition chess_club :: activity where
  "chess_club =
     \<lparr>description = ''Learn strategies and compete in chess tournaments'',
      schedule = ''Fridays'',
      max_participants = 10,
      participants = [''a@x.com'']\<rparr>"

definition art_club :: activity where
  "art_club =
     \<lparr>description = ''Explore painting and drawing'',
      schedule = ''Thursdays'',
      max_participants = 15,
      participants = []\<rparr>"

definition crowded_club :: activity where
  "crowded_club =
     \<lparr>description = ''More members than seats'',
      schedule = ''Mondays'',
      max_participants = 1,
      participants = [''a@x.com'', ''b@x.com'', ''c@x.com'']\<rparr>"


definition example_activities :: activities where
  "example_activities =
     [(''Chess Club'', chess_club), (''Art Club'', art_club), (''Crowded Club'', crowded_club)]"

text \<open>
  A page as the markup could deliver it, with an address typed into the form and an
  activity chosen: the list shows a loading line, the banner is hidden, nothing has
  been sent yet.
\<close>

definition example_page :: page where
  "example_page =
     \<lparr>activitiesList = [Paragraph ''Loading activities...''],
      activitySelect = [defaultOption, \<lparr>opt_value = ''Chess Club'', opt_text = ''Chess Club''\<rparr>],
      activity_value = ''Chess Club'',
      email_value = ''b@x.com'',
      email_default = [],
      messageDiv_text = [],
      messageDiv_class = [''hidden''],
      requests = [],
      pending = 0,
      timers = [],
      now = 0,
      console = []\<rparr>"

section \<open>Properties\<close>

subsection \<open>The two loops\<close>

lemma foldl_append_participant:
  "foldl (append_participant name) lis ps =
     lis @ map (\<lambda>p. Participant_item p (deleteBtn name p)) ps"
  by (induction ps arbitrary: lis) (simp_all add: append_participant_def)

lemma foldl_render_entry:
  "foldl render_entry s acts =
     s\<lparr>activitiesList :=
         activitiesList s @ map (\<lambda>e. Activity_card (activityCard (fst e) (snd e))) acts,
       activitySelect :=
         activitySelect s @ map (\<lambda>e. \<lparr>opt_value = fst e, opt_text = fst e\<rparr>) acts\<rparr>"
proof (induction acts arbitrary: s)
  case Nil
  show ?case by simp
next
  case (Cons e acts)
  show ?case
    unfolding foldl_Cons Cons.IH by (simp add: render_entry_def)
qed

lemma cards_map_Activity_card [simp]: "cards (map (\<lambda>e. Activity_card (f e)) xs) = map f xs"
  by (induction xs) simp_all

lemma delete_buttons_map_Participant_item [simp]:
  "delete_buttons (map (\<lambda>p. Participant_item p (f p)) ps) = map f ps"
  by (induction ps) simp_all

subsection \<open>Time passing\<close>

lemma classList_add_hidden_idem:
  "classList_add_hidden (classList_add_hidden s) = classList_add_hidden s"
  by (simp add: classList_add_hidden_def)

lemma foldl_classList_add_hidden:
  "foldl (\<lambda>p x. classList_add_hidden p) s xs = (if xs = [] then s else classList_add_hidden s)"
proof (induction xs arbitrary: s)
  case Nil
  show ?case by simp
next
  case (Cons x xs)
  show ?case
    unfolding foldl_Cons Cons.IH by (simp add: classList_add_hidden_idem)
qed

lemma elapse_eq:
  "elapse d s =
     (if filter (\<lambda>x. x \<le> now s + d) (timers s) = [] then s else classList_add_hidden s)
     \<lparr>timers := filter (\<lambda>x. \<not> x \<le> now s + d) (timers s), now := now s + d\<rparr>"
  by (simp add: elapse_def Let_def foldl_classList_add_hidden)

lemma classList_add_hidden_frame [simp]:
  "activitiesList (classList_add_hidden s) = activitiesList s"
  "activitySelect (classList_add_hidden s) = activitySelect s"
  "activity_value (classList_add_hidden s) = activity_value s"
  "email_value (classList_add_hidden s) = email_value s"
  "email_default (classList_add_hidden s) = email_default s"
  "messageDiv_text (classList_add_hidden s) = messageDiv_text s"
  "requests (classList_add_hidden s) = requests s"
  "console (classList_add_hidden s) = console s"
  "pending (classList_add_hidden s) = pending s"
  "timers (classList_add_hidden s) = timers s"
  "now (classList_add_hidden s) = now s"
  by (simp_all add: classList_add_hidden_def)

lemma elapse_frame [simp]:
  "activitiesList (elapse d s) = activitiesList s"
  "activitySelect (elapse d s) = activitySelect s"
  "activity_value (elapse d s) = activity_value s"
  "email_value (elapse d s) = email_value s"
  "email_default (elapse d s) = email_default s"
  "messageDiv_text (elapse d s) = messageDiv_text s"
  "requests (elapse d s) = requests s"
  "console (elapse d s) = console s"
  "pending (elapse d s) = pending s"
  "now (elapse d s) = now s + d"
  "timers (elapse d s) = filter (\<lambda>x. \<not> x \<le> now s + d) (timers s)"
  by (simp_all add: elapse_eq)

lemma messageDiv_class_elapse:
  "messageDiv_class (elapse d s) =
     (if \<exists>x \<in> set (timers s). x \<le> now s + d
      then messageDiv_class (classList_add_hidden s)
      else messageDiv_class s)"
  by (auto simp add: elapse_eq filter_empty_conv)

subsection \<open>What fetchActivities leaves behind\<close>

lemma fetchActivities_resume_parsed:
  "fetchActivities_resume (Response ok (Some acts)) s =
     s\<lparr>activitiesList := map (\<lambda>e. Activity_card (activityCard (fst e) (snd e))) acts,
       activitySelect := defaultOption # map (\<lambda>e. \<lparr>opt_value = fst e, opt_text = fst e\<rparr>) acts,
       activity_value := [],
       pending := pending s - 1\<rparr>"
  by (simp add: fetchActivities_resume_def fetchActivities_try_def foldl_render_entry
      defaultOption_def)

lemma fetchActivities_resume_failed:
  "fetchActivities_resume Network_error s = (fetchActivities_catch s)\<lparr>pending := pending s - 1\<rparr>"
  "fetchActivities_resume (Response ok None) s =
     (fetchActivities_catch s)\<lparr>pending := pending s - 1\<rparr>"
  by (simp_all add: fetchActivities_resume_def fetchActivities_try_def)

lemma fetchActivities_frame [simp]:
  "requests (fetchActivities d reply s) = requests s @ [GET_activities]"
  "email_value (fetchActivities d reply s) = email_value s"
  "email_default (fetchActivities d reply s) = email_default s"
  "messageDiv_text (fetchActivities d reply s) = messageDiv_text s"
  "now (fetchActivities d reply s) = now s + d"
  "pending (fetchActivities d reply s) = pending s"
  by (simp_all add: fetchActivities_def fetchActivities_resume_def fetchActivities_try_def
      fetchActivities_catch_def fetchActivities_call_def foldl_render_entry
      split: http.split option.split)

lemma fetchActivities_resume_frame [simp]:
  "requests (fetchActivities_resume reply s) = requests s"
  "email_value (fetchActivities_resume reply s) = email_value s"
  "messageDiv_text (fetchActivities_resume reply s) = messageDiv_text s"
  "messageDiv_class (fetchActivities_resume reply s) = messageDiv_class s"
  "timers (fetchActivities_resume reply s) = timers s"
  "now (fetchActivities_resume reply s) = now s"
  "pending (fetchActivities_resume reply s) = pending s - 1"
  by (simp_all add: fetchActivities_resume_def fetchActivities_try_def
      fetchActivities_catch_def foldl_render_entry split: http.split option.split)

lemma count_key_distinct:
  "distinct (map fst acts) \<Longrightarrow> k \<in> fst ` set acts \<Longrightarrow>
     length (filter (\<lambda>e. fst e = k) acts) = 1"
proof (induction acts)
  case Nil
  then show ?case by simp
next
  case (Cons e acts)
  show ?case
  proof (cases "fst e = k")
    case True
    with Cons.prems have "k \<notin> fst ` set acts" by auto
    then have "filter (\<lambda>e. fst e = k) acts = []"
      by (auto simp add: filter_empty_conv)
    with True show ?thesis by simp
  next
    case False
    with Cons show ?thesis by auto
  qed
qed

subsection \<open>Cards and options\<close>

lemma count_option_distinct:
  assumes "distinct (map fst acts)" and "k \<in> fst ` set acts"
  shows "length (filter (\<lambda>x. x = \<lparr>opt_value = k, opt_text = k\<rparr>)
           (defaultOption # map (\<lambda>e. \<lparr>opt_value = fst e, opt_text = fst e\<rparr>) acts)) = 1"
proof -
  have "filter (\<lambda>x. x = \<lparr>opt_value = k, opt_text = k\<rparr>)
          (map (\<lambda>e. \<lparr>opt_value = fst e, opt_text = fst e\<rparr>) acts) =
        map (\<lambda>e. \<lparr>opt_value = fst e, opt_text = fst e\<rparr>) (filter (\<lambda>e. fst e = k) acts)"
    by (induction acts) auto
  moreover have "defaultOption \<noteq> \<lparr>opt_value = k, opt_text = k\<rparr>"
    by (auto simp add: defaultOption_def)
  ultimately show ?thesis
    using count_key_distinct [OF assms] by simp
qed

lemma count_default_option:
  "length (filter (\<lambda>x. x = defaultOption)
     (defaultOption # map (\<lambda>e. \<lparr>opt_value = fst e, opt_text = fst e\<rparr>) acts)) = 1"
proof -
  have "filter (\<lambda>x. x = defaultOption)
          (map (\<lambda>e. \<lparr>opt_value = fst e, opt_text = fst e\<rparr>) acts) = []"
    by (auto simp add: filter_empty_conv defaultOption_def)
  then show ?thesis by simp
qed

lemma count_card_distinct:
  assumes "distinct (map fst acts)" and "k \<in> fst ` set acts"
  shows "length (filter (\<lambda>c. card_name c = k) (map (\<lambda>e. activityCard (fst e) (snd e)) acts)) = 1"
proof -
  have "filter (\<lambda>c. card_name c = k) (map (\<lambda>e. activityCard (fst e) (snd e)) acts) =
        map (\<lambda>e. activityCard (fst e) (snd e)) (filter (\<lambda>e. fst e = k) acts)"
    by (induction acts) (auto simp add: activityCard_def)
  then show ?thesis
    using count_key_distinct [OF assms] by simp
qed

text \<open>
  C1. When the list endpoint answers with a collection, \<open>fetchActivities\<close> leaves exactly
  one card per key of the collection in the list, in the order of the entries and nothing
  else, and the select holds the placeholder option \<^verbatim>\<open>-- Select an activity --\<close> exactly
  once and exactly one option per activity. (The keys of a parsed object are distinct.)
\<close>

theorem fetchActivities_one_card_and_option_per_key:
  assumes "distinct (map fst acts)"
  shows "activitiesList (fetchActivities d (Response ok (Some acts)) s) =
           map (\<lambda>e. Activity_card (activityCard (fst e) (snd e))) acts
       \<and> length (activitiesList (fetchActivities d (Response ok (Some acts)) s)) =
           card (fst ` set acts)
       \<and> (\<forall>k \<in> fst ` set acts.
            length (filter (\<lambda>c. card_name c = k)
              (cards (activitiesList (fetchActivities d (Response ok (Some acts)) s)))) = 1)
       \<and> activitySelect (fetchActivities d (Response ok (Some acts)) s) =
           defaultOption # map (\<lambda>e. \<lparr>opt_value = fst e, opt_text = fst e\<rparr>) acts
       \<and> length (activitySelect (fetchActivities d (Response ok (Some acts)) s)) =
           card (fst ` set acts) + 1
       \<and> length (filter (\<lambda>x. x = defaultOption)
            (activitySelect (fetchActivities d (Response ok (Some acts)) s))) = 1
       \<and> (\<forall>k \<in> fst ` set acts.
            length (filter (\<lambda>x. x = \<lparr>opt_value = k, opt_text = k\<rparr>)
              (activitySelect (fetchActivities d (Response ok (Some acts)) s))) = 1)"
proof -
  let ?s = "fetchActivities d (Response ok (Some acts)) s"
  have list: "activitiesList ?s = map (\<lambda>e. Activity_card (activityCard (fst e) (snd e))) acts"
    by (simp add: fetchActivities_def fetchActivities_resume_parsed)
  have sel: "activitySelect ?s =
      defaultOption # map (\<lambda>e. \<lparr>opt_value = fst e, opt_text = fst e\<rparr>) acts"
    by (simp add: fetchActivities_def fetchActivities_resume_parsed)
  have keys: "card (fst ` set acts) = length acts"
    using assms distinct_card [of "map fst acts"] by simp
  show ?thesis
    unfolding list sel
    using count_card_distinct [OF assms] count_option_distinct [OF assms] count_default_option [of acts]
    by (simp add: keys)
qed

theorem fetchActivities_one_card_and_option_per_key_witness:
  "distinct (map fst example_activities)
   \<and> length (activitiesList (fetchActivities 20 (Response True (Some example_activities)) example_page)) = 3
   \<and> map card_name (cards (activitiesList
        (fetchActivities 20 (Response True (Some example_activities)) example_page))) =
        [''Chess Club'', ''Art Club'', ''Crowded Club'']
   \<and> activitySelect (fetchActivities 20 (Response True (Some example_activities)) example_page) =
        [defaultOption,
         \<lparr>opt_value = ''Chess Club'', opt_text = ''Chess Club''\<rparr>,
         \<lparr>opt_value = ''Art Club'', opt_text = ''Art Club''\<rparr>,
         \<lparr>opt_value = ''Crowded Club'', opt_text = ''Crowded Club''\<rparr>]"
proof -
  have d: "distinct (map fst example_activities)"
    by (simp add: example_activities_def)
  show ?thesis
    using d fetchActivities_one_card_and_option_per_key [OF d, of 20 True example_page]
    by (simp add: example_activities_def activityCard_def)
qed

subsection \<open>Spots left\<close>



lemma bit_length_examples:
  "bit_length 9007199254740993 = 54"
  "bit_length 9007199254740994 = 54"
  by (simp_all add: bit_length.simps)


text \<open>Rounding beyond \<open>2^53\<close>: to the nearest double, a tie to the even significand.\<close>

lemma bit_length_more_examples:
  "bit_length 9007199254740995 = 54"
  "bit_length 18014398509481985 = 55"
  "bit_length 18014398509481986 = 55"
  "bit_length 18014398509481987 = 55"
  by (simp_all add: bit_length.simps)

lemma round_to_double_examples:
  "round_to_double 9007199254740993 = 9007199254740992"
  "round_to_double 9007199254740995 = 9007199254740996"
  "round_to_double (- 9007199254740993) = - 9007199254740992"
  "round_to_double 18014398509481985 = 18014398509481984"
  "round_to_double 18014398509481986 = 18014398509481984"
  "round_to_double 18014398509481987 = 18014398509481988"
  by (simp_all add: round_to_double_def Let_def bit_length_examples bit_length_more_examples)

text \<open>The largest double is \<open>2^1024 - 2^971\<close>; half a step above it the number is infinite.\<close>

lemma number_value_overflow_examples:
  "number_value (2 ^ 1024) = Infinity"
  "number_value (2 ^ 1024 - 2 ^ 970) = Infinity"
  "number_value (2 ^ 1024 - 2 ^ 970 - 1) = Finite (2 ^ 1024 - 2 ^ 971)"
  "js_minus (number_value (- (2 ^ 1024))) 3 = Minus_infinity"
  by code_simp+




subsection \<open>Failure of the list request\<close>

text \<open>
  C5. When the request for the list is rejected, or its body does not parse,
  \<open>fetchActivities\<close> replaces the content of the list with the failure notice, leaves the
  options of the select as they were, and has sent its request exactly once.
\<close>

theorem fetchActivities_failure:
  "activitiesList (fetchActivities d Network_error s) =
     [Paragraph ''Failed to load activities. Please try again later.'']
   \<and> activitySelect (fetchActivities d Network_error s) = activitySelect s
   \<and> requests (fetchActivities d Network_error s) = requests s @ [GET_activities]
   \<and> activitiesList (fetchActivities d (Response ok None) s) =
     [Paragraph ''Failed to load activities. Please try again later.'']
   \<and> activitySelect (fetchActivities d (Response ok None) s) = activitySelect s
   \<and> requests (fetchActivities d (Response ok None) s) = requests s @ [GET_activities]"
  by (simp add: fetchActivities_def fetchActivities_resume_failed fetchActivities_catch_def
      fetchActivities_call_def)

subsection \<open>The text of a value\<close>

lemma js_to_string_examples:
  "js_to_string (Num True 42) = Inr ''-42''"
  "js_to_string (Num True 0) = Inr ''0''"
  "js_to_string (Arr [Num False 1, Null, Arr [Str ''a'', Bool True], Obj []]) =
     Inr ''1,,a,true,[object Object]''"
  "js_to_string (Arr [Str ''a'', Obj [(''toString'', Null)]]) = Inl TypeError"
  "textContent (Arr []) = Inr []"
  by (simp_all add: show_nat.simps)

subsection \<open>The listeners, branch by branch\<close>

lemma signup_submit_ok:
  assumes "get_prop result ''message'' = Inr m" and "textContent m = Inr t"
  shows "signup_submit d (Response True (Some result)) d2 reply2 s =
     setTimeout_hide (classList_remove_hidden (fetchActivities d2 reply2 (signupForm_reset
       ((elapse d (s\<lparr>requests := requests s @ [POST_signup (activity_value s) (email_value s)]\<rparr>))
          \<lparr>messageDiv_text := t, messageDiv_class := [''success'']\<rparr>))))"
  using assms by (simp add: signup_submit_def signup_try_def Let_def)

lemma signup_submit_rejected:
  assumes "get_prop result ''detail'' = Inr v"
    and "textContent (js_or v (Str ''An error occurred'')) = Inr t"
  shows "signup_submit d (Response False (Some result)) d2 reply2 s =
     setTimeout_hide (classList_remove_hidden
       ((elapse d (s\<lparr>requests := requests s @ [POST_signup (activity_value s) (email_value s)]\<rparr>))
          \<lparr>messageDiv_text := t, messageDiv_class := [''error'']\<rparr>))"
  using assms by (simp add: signup_submit_def signup_try_def Let_def)

lemma signup_submit_thrown:
  assumes "signup_try reply d2 reply2
     (elapse d (s\<lparr>requests := requests s @ [POST_signup (activity_value s) (email_value s)]\<rparr>)) = Inl e"
  shows "signup_submit d reply d2 reply2 s =
     signup_catch (elapse d (s\<lparr>requests := requests s @ [POST_signup (activity_value s) (email_value s)]\<rparr>))"
  using assms by (simp add: signup_submit_def Let_def)

lemma signup_try_throws:
  "signup_try Network_error d2 reply2 s = Inl Fetch_failed"
  "signup_try (Response ok None) d2 reply2 s = Inl Json_syntax_error"
  "get_prop result ''message'' = Inl e \<Longrightarrow> signup_try (Response True (Some result)) d2 reply2 s = Inl e"
  "get_prop result ''message'' = Inr m \<Longrightarrow> textContent m = Inl e \<Longrightarrow>
     signup_try (Response True (Some result)) d2 reply2 s = Inl e"
  "get_prop result ''detail'' = Inl e \<Longrightarrow> signup_try (Response False (Some result)) d2 reply2 s = Inl e"
  "get_prop result ''detail'' = Inr v \<Longrightarrow> textContent (js_or v (Str ''An error occurred'')) = Inl e \<Longrightarrow>
     signup_try (Response False (Some result)) d2 reply2 s = Inl e"
  by (simp_all add: signup_try_def)

lemma deleteBtn_click_ok:
  assumes "get_prop result ''message'' = Inr m" and "textContent m = Inr t"
  shows "deleteBtn_click name p d (Response True (Some result)) s =
     setTimeout_hide (classList_remove_hidden (fetchActivities_call
       ((elapse d (s\<lparr>requests := requests s @ [DELETE_unregister name p]\<rparr>))
          \<lparr>messageDiv_text := t, messageDiv_class := [''success'']\<rparr>)))"
  using assms by (simp add: deleteBtn_click_def unregister_try_def Let_def)

lemma deleteBtn_click_rejected:
  assumes "get_prop result ''detail'' = Inr v"
    and "textContent (js_or v (Str ''Failed to unregister'')) = Inr t"
  shows "deleteBtn_click name p d (Response False (Some result)) s =
     setTimeout_hide (classList_remove_hidden
       ((elapse d (s\<lparr>requests := requests s @ [DELETE_unregister name p]\<rparr>))
          \<lparr>messageDiv_text := t, messageDiv_class := [''error'']\<rparr>))"
  using assms by (simp add: deleteBtn_click_def unregister_try_def Let_def)

lemma deleteBtn_click_thrown:
  assumes "unregister_try reply
     (elapse d (s\<lparr>requests := requests s @ [DELETE_unregister name p]\<rparr>)) = Inl e"
  shows "deleteBtn_click name p d reply s =
     unregister_catch (elapse d (s\<lparr>requests := requests s @ [DELETE_unregister name p]\<rparr>))"
  using assms by (simp add: deleteBtn_click_def Let_def)

lemma unregister_try_throws:
  "unregister_try Network_error s = Inl Fetch_failed"
  "unregister_try (Response ok None) s = Inl Json_syntax_error"
  "get_prop result ''message'' = Inl e \<Longrightarrow> unregister_try (Response True (Some result)) s = Inl e"
  "get_prop result ''message'' = Inr m \<Longrightarrow> textContent m = Inl e \<Longrightarrow>
     unregister_try (Response True (Some result)) s = Inl e"
  "get_prop result ''detail'' = Inl e \<Longrightarrow> unregister_try (Response False (Some result)) s = Inl e"
  "get_prop result ''detail'' = Inr v \<Longrightarrow> textContent (js_or v (Str ''Failed to unregister'')) = Inl e \<Longrightarrow>
     unregister_try (Response False (Some result)) s = Inl e"
  by (simp_all add: unregister_try_def)

lemma after_reply_frame [simp]:
  "activitiesList (setTimeout_hide s) = activitiesList s"
  "activitySelect (setTimeout_hide s) = activitySelect s"
  "requests (setTimeout_hide s) = requests s"
  "pending (setTimeout_hide s) = pending s"
  "email_value (setTimeout_hide s) = email_value s"
  "messageDiv_text (setTimeout_hide s) = messageDiv_text s"
  "messageDiv_class (setTimeout_hide s) = messageDiv_class s"
  "now (setTimeout_hide s) = now s"
  "timers (setTimeout_hide s) = timers s @ [now s + 5000]"
  "activitiesList (classList_remove_hidden s) = activitiesList s"
  "activitySelect (classList_remove_hidden s) = activitySelect s"
  "requests (classList_remove_hidden s) = requests s"
  "pending (classList_remove_hidden s) = pending s"
  "email_value (classList_remove_hidden s) = email_value s"
  "messageDiv_text (classList_remove_hidden s) = messageDiv_text s"
  "now (classList_remove_hidden s) = now s"
  "timers (classList_remove_hidden s) = timers s"
  "messageDiv_class (classList_remove_hidden s) = filter (\<lambda>c. c \<noteq> ''hidden'') (messageDiv_class s)"
  by (simp_all add: setTimeout_hide_def classList_remove_hidden_def)

lemma catch_frame [simp]:
  "activitiesList (signup_catch s) = activitiesList s"
  "activitySelect (signup_catch s) = activitySelect s"
  "requests (signup_catch s) = requests s"
  "pending (signup_catch s) = pending s"
  "email_value (signup_catch s) = email_value s"
  "timers (signup_catch s) = timers s"
  "now (signup_catch s) = now s"
  "messageDiv_text (signup_catch s) = ''Failed to sign up. Please try again.''"
  "messageDiv_class (signup_catch s) = [''error'']"
  "activitiesList (unregister_catch s) = activitiesList s"
  "activitySelect (unregister_catch s) = activitySelect s"
  "requests (unregister_catch s) = requests s"
  "pending (unregister_catch s) = pending s"
  "email_value (unregister_catch s) = email_value s"
  "timers (unregister_catch s) = timers s"
  "now (unregister_catch s) = now s"
  "messageDiv_text (unregister_catch s) = ''Failed to unregister. Please try again.''"
  "messageDiv_class (unregister_catch s) = [''error'']"
  by (simp_all add: signup_catch_def unregister_catch_def classList_remove_hidden_def)

lemma signupForm_reset_frame [simp]:
  "activitiesList (signupForm_reset s) = activitiesList s"
  "activitySelect (signupForm_reset s) = activitySelect s"
  "requests (signupForm_reset s) = requests s"
  "pending (signupForm_reset s) = pending s"
  "email_value (signupForm_reset s) = email_default s"
  "email_default (signupForm_reset s) = email_default s"
  "messageDiv_text (signupForm_reset s) = messageDiv_text s"
  "messageDiv_class (signupForm_reset s) = messageDiv_class s"
  "now (signupForm_reset s) = now s"
  "timers (signupForm_reset s) = timers s"
  by (simp_all add: signupForm_reset_def)

lemma fetchActivities_call_frame [simp]:
  "activitiesList (fetchActivities_call s) = activitiesList s"
  "activitySelect (fetchActivities_call s) = activitySelect s"
  "requests (fetchActivities_call s) = requests s @ [GET_activities]"
  "pending (fetchActivities_call s) = pending s + 1"
  "email_value (fetchActivities_call s) = email_value s"
  "messageDiv_text (fetchActivities_call s) = messageDiv_text s"
  "messageDiv_class (fetchActivities_call s) = messageDiv_class s"
  "now (fetchActivities_call s) = now s"
  "timers (fetchActivities_call s) = timers s"
  by (simp_all add: fetchActivities_call_def)

lemma fetchActivities_parsed_views:
  "activitiesList (fetchActivities d (Response ok (Some acts)) s) =
     map (\<lambda>e. Activity_card (activityCard (fst e) (snd e))) acts"
  "activitySelect (fetchActivities d (Response ok (Some acts)) s) =
     defaultOption # map (\<lambda>e. \<lparr>opt_value = fst e, opt_text = fst e\<rparr>) acts"
  by (simp_all add: fetchActivities_def fetchActivities_resume_parsed)

lemma signup_submit_failed:
  "signup_submit d Network_error d2 reply2 s =
     signup_catch (elapse d (s\<lparr>requests := requests s @ [POST_signup (activity_value s) (email_value s)]\<rparr>))"
  "signup_submit d (Response ok None) d2 reply2 s =
     signup_catch (elapse d (s\<lparr>requests := requests s @ [POST_signup (activity_value s) (email_value s)]\<rparr>))"
  by (simp_all add: signup_submit_thrown signup_try_throws)

lemma deleteBtn_click_failed:
  "deleteBtn_click name p d Network_error s =
     unregister_catch (elapse d (s\<lparr>requests := requests s @ [DELETE_unregister name p]\<rparr>))"
  "deleteBtn_click name p d (Response ok None) s =
     unregister_catch (elapse d (s\<lparr>requests := requests s @ [DELETE_unregister name p]\<rparr>))"
  by (simp_all add: deleteBtn_click_thrown unregister_try_throws)

text \<open>
  Every run of a listener ends in one of two ways: in the \<^verbatim>\<open>catch\<close> block, or at the end
  of the \<^verbatim>\<open>try\<close> block with a text and a class set, the timer started and, after an ok
  reply, the refetch called.
\<close>

lemma signup_submit_cases:
  "signup_submit d reply d2 reply2 s =
     signup_catch (elapse d (s\<lparr>requests := requests s @ [POST_signup (activity_value s) (email_value s)]\<rparr>))
   \<or> (\<exists>t c. signup_submit d reply d2 reply2 s =
         setTimeout_hide (classList_remove_hidden
           ((elapse d (s\<lparr>requests := requests s @ [POST_signup (activity_value s) (email_value s)]\<rparr>))
              \<lparr>messageDiv_text := t, messageDiv_class := c\<rparr>))
         \<and> (\<exists>body. reply = Response False body))
   \<or> (\<exists>t c. signup_submit d reply d2 reply2 s =
         setTimeout_hide (classList_remove_hidden (fetchActivities d2 reply2 (signupForm_reset
           ((elapse d (s\<lparr>requests := requests s @ [POST_signup (activity_value s) (email_value s)]\<rparr>))
              \<lparr>messageDiv_text := t, messageDiv_class := c\<rparr>))))
         \<and> (\<exists>body. reply = Response True body))"
  by (auto simp add: signup_submit_def signup_try_def Let_def
      split: http.split option.split sum.split)

lemma deleteBtn_click_cases:
  "deleteBtn_click name p d reply s =
     unregister_catch (elapse d (s\<lparr>requests := requests s @ [DELETE_unregister name p]\<rparr>))
   \<or> (\<exists>t c. deleteBtn_click name p d reply s =
         setTimeout_hide (classList_remove_hidden
           ((elapse d (s\<lparr>requests := requests s @ [DELETE_unregister name p]\<rparr>))
              \<lparr>messageDiv_text := t, messageDiv_class := c\<rparr>))
         \<and> (\<exists>body. reply = Response False body))
   \<or> (\<exists>t c. deleteBtn_click name p d reply s =
         setTimeout_hide (classList_remove_hidden (fetchActivities_call
           ((elapse d (s\<lparr>requests := requests s @ [DELETE_unregister name p]\<rparr>))
              \<lparr>messageDiv_text := t, messageDiv_class := c\<rparr>)))
         \<and> (\<exists>body. reply = Response True body))"
  by (auto simp add: deleteBtn_click_def unregister_try_def Let_def
      split: http.split option.split sum.split)

text \<open>A response without the ok flag, whatever its body: no refetch, no reset.\<close>

lemma signup_submit_not_ok_frame:
  "requests (signup_submit d (Response False body) d2 reply2 s) =
     requests s @ [POST_signup (activity_value s) (email_value s)]"
  "activitiesList (signup_submit d (Response False body) d2 reply2 s) = activitiesList s"
  "activitySelect (signup_submit d (Response False body) d2 reply2 s) = activitySelect s"
  "email_value (signup_submit d (Response False body) d2 reply2 s) = email_value s"
  using signup_submit_cases [of d "Response False body" d2 reply2 s] by auto

lemma deleteBtn_click_not_ok_frame:
  "requests (deleteBtn_click name p d (Response False body) s) =
     requests s @ [DELETE_unregister name p]"
  "activitiesList (deleteBtn_click name p d (Response False body) s) = activitiesList s"
  "activitySelect (deleteBtn_click name p d (Response False body) s) = activitySelect s"
  using deleteBtn_click_cases [of name p d "Response False body" s] by auto

lemma requests_deleteBtn_click:
  "requests (deleteBtn_click name p d reply s) = requests s @ [DELETE_unregister name p]
   \<or> requests (deleteBtn_click name p d reply s) =
       requests s @ [DELETE_unregister name p, GET_activities]"
  using deleteBtn_click_cases [of name p d reply s] by auto

subsection \<open>Participant rows\<close>

text \<open>
  C8. The cards of the list are the cards \<open>activityCard\<close> builds. A card of an activity
  without participants holds exactly one row, the placeholder \<^verbatim>\<open>No participants yet\<close>, and
  no delete button. A card of an activity with participants holds one row per
  participant, in order, and no placeholder: the row shows the participant and carries
  exactly one delete button, titled with that participant and bound to that activity and
  that participant, so that a click on the button of the \<open>i\<close>-th row sends, as its first
  request, the unregister request for that activity and the \<open>i\<close>-th participant.
\<close>

theorem participants_rows:
  "cards (activitiesList (fetchActivities d (Response ok (Some acts)) s)) =
     map (\<lambda>e. activityCard (fst e) (snd e)) acts
   \<and> (participants details = [] \<longrightarrow>
        card_participants (activityCard name details) = [No_participants ''No participants yet'']
        \<and> delete_buttons (card_participants (activityCard name details)) = [])
   \<and> (participants details \<noteq> [] \<longrightarrow>
        card_participants (activityCard name details) =
          map (\<lambda>p. Participant_item p
                 \<lparr>btn_title = ''Unregister '' @ p, btn_activity = name, btn_participant = p\<rparr>)
            (participants details)
        \<and> length (delete_buttons (card_participants (activityCard name details))) =
          length (participants details)
        \<and> (\<forall>i < length (participants details).
             take (Suc (length (requests s')))
               (requests (click (delete_buttons (card_participants (activityCard name details)) ! i)
                  d' reply s')) =
             requests s' @ [DELETE_unregister name (participants details ! i)]))"
proof -
  have rows: "participants details \<noteq> [] \<Longrightarrow>
      card_participants (activityCard name details) =
        map (\<lambda>p. Participant_item p
               \<lparr>btn_title = ''Unregister '' @ p, btn_activity = name, btn_participant = p\<rparr>)
          (participants details)"
    by (simp add: activityCard_def participantsList_def foldl_append_participant deleteBtn_def)
  have first: "take (Suc (length (requests s'))) (requests (deleteBtn_click name p d' reply s')) =
      requests s' @ [DELETE_unregister name p]" for p
    using requests_deleteBtn_click [of name p d' reply s'] by auto
  have clicks: "participants details \<noteq> [] \<Longrightarrow> i < length (participants details) \<Longrightarrow>
      take (Suc (length (requests s')))
        (requests (click (delete_buttons (card_participants (activityCard name details)) ! i)
           d' reply s')) =
      requests s' @ [DELETE_unregister name (participants details ! i)]" for i
    by (simp add: rows click_def first)
  have none: "participants details = [] \<Longrightarrow>
      card_participants (activityCard name details) = [No_participants ''No participants yet'']"
    by (simp add: activityCard_def participantsList_def)
  have all: "cards (activitiesList (fetchActivities d (Response ok (Some acts)) s)) =
     map (\<lambda>e. activityCard (fst e) (snd e)) acts"
    by (simp add: fetchActivities_def fetchActivities_resume_parsed)
  show ?thesis
    using rows clicks none all by simp
qed

theorem participants_rows_witness:
  "participants art_club = []
   \<and> card_participants (activityCard ''Art Club'' art_club) = [No_participants ''No participants yet'']
   \<and> delete_buttons (card_participants (activityCard ''Art Club'' art_club)) = []
   \<and> participants crowded_club \<noteq> []
   \<and> card_participants (activityCard ''Crowded Club'' crowded_club) =
       [Participant_item ''a@x.com''
          \<lparr>btn_title = ''Unregister a@x.com'', btn_activity = ''Crowded Club'',
             btn_participant = ''a@x.com''\<rparr>,
        Participant_item ''b@x.com''
          \<lparr>btn_title = ''Unregister b@x.com'', btn_activity = ''Crowded Club'',
             btn_participant = ''b@x.com''\<rparr>,
        Participant_item ''c@x.com''
          \<lparr>btn_title = ''Unregister c@x.com'', btn_activity = ''Crowded Club'',
             btn_participant = ''c@x.com''\<rparr>]
   \<and> length (delete_buttons (card_participants (activityCard ''Crowded Club'' crowded_club))) = 3
   \<and> take 1 (requests (click
         (delete_buttons (card_participants (activityCard ''Crowded Club'' crowded_club)) ! 1)
         30 Network_error example_page)) =
       [DELETE_unregister ''Crowded Club'' ''b@x.com'']"
proof -
  have a: "participants art_club = []" and c: "participants crowded_club \<noteq> []"
    and r: "requests example_page = []"
    by (simp_all add: art_club_def crowded_club_def example_page_def)
  from participants_rows [of 0 True "[]" example_page art_club "''Art Club''"] a
  have 1: "card_participants (activityCard ''Art Club'' art_club) =
      [No_participants ''No participants yet'']
    \<and> delete_buttons (card_participants (activityCard ''Art Club'' art_club)) = []"
    by blast
  from participants_rows [of 0 True "[]" example_page crowded_club "''Crowded Club''"
      example_page 30 Network_error] c
  have 2: "card_participants (activityCard ''Crowded Club'' crowded_club) =
          map (\<lambda>p. Participant_item p
                 \<lparr>btn_title = ''Unregister '' @ p, btn_activity = ''Crowded Club'',
                    btn_participant = p\<rparr>)
            (participants crowded_club)"
    and 3: "length (delete_buttons (card_participants (activityCard ''Crowded Club'' crowded_club))) =
          length (participants crowded_club)"
    and 4: "\<forall>i < length (participants crowded_club).
             take (Suc (length (requests example_page)))
               (requests (click
                  (delete_buttons (card_participants (activityCard ''Crowded Club'' crowded_club)) ! i)
                  30 Network_error example_page)) =
             requests example_page @ [DELETE_unregister ''Crowded Club'' (participants crowded_club ! i)]"
    by blast+
  have "(1::nat) < length (participants crowded_club)"
    by (simp add: crowded_club_def)
  with 4 have 5: "take 1 (requests (click
         (delete_buttons (card_participants (activityCard ''Crowded Club'' crowded_club)) ! 1)
         30 Network_error example_page)) =
       [DELETE_unregister ''Crowded Club'' (participants crowded_club ! 1)]"
    using r by (metis One_nat_def append_Nil list.size(3))
  have 6: "participants crowded_club ! 1 = ''b@x.com''"
    and 7: "participants crowded_club = [''a@x.com'', ''b@x.com'', ''c@x.com'']"
    by (simp_all add: crowded_club_def)
  show ?thesis
    using a c 1 2 3 5 by (simp add: 6 7)
qed

subsection \<open>Refetch after a mutation\<close>

text \<open>
  C3, as stated, fails. \<^verbatim>\<open>response.json()\<close> runs before the test of \<^verbatim>\<open>response.ok\<close>: a
  reply with the ok flag and a body that is not JSON (an empty body, say), or whose
  body is \<^verbatim>\<open>null\<close>, ends in the \<^verbatim>\<open>catch\<close> block. The listener sends its own request and
  no other, no call of \<open>fetchActivities\<close> is pending, the list stays as it was, and the
  banner reports a failure.
\<close>

theorem ok_reply_unreadable_counterexample:
  "requests (signup_submit 30 (Response True None) 20 (Response True (Some example_activities))
      example_page) = [POST_signup ''Chess Club'' ''b@x.com'']
   \<and> activitiesList (signup_submit 30 (Response True None) 20
      (Response True (Some example_activities)) example_page) = [Paragraph ''Loading activities...'']
   \<and> requests (signup_submit 30 (Response True (Some Null)) 20
      (Response True (Some example_activities)) example_page) = [POST_signup ''Chess Club'' ''b@x.com'']
   \<and> requests (deleteBtn_click ''Chess Club'' ''a@x.com'' 30 (Response True None) example_page) =
      [DELETE_unregister ''Chess Club'' ''a@x.com'']
   \<and> pending (deleteBtn_click ''Chess Club'' ''a@x.com'' 30 (Response True None) example_page) = 0
   \<and> messageDiv_text (deleteBtn_click ''Chess Club'' ''a@x.com'' 30 (Response True None)
      example_page) = ''Failed to unregister. Please try again.''
   \<and> requests (deleteBtn_click ''Chess Club'' ''a@x.com'' 30 (Response True (Some Null))
      example_page) = [DELETE_unregister ''Chess Club'' ''a@x.com'']"
  by (simp add: signup_submit_failed deleteBtn_click_failed signup_submit_thrown
      deleteBtn_click_thrown signup_try_throws unregister_try_throws example_page_def)

text \<open>
  C3, amended. When the reply to a signup or an unregister request has the ok flag and
  a body from which the message can be shown (the body parsed and is not \<^verbatim>\<open>null\<close>, and
  \<^verbatim>\<open>result.message\<close> converts to text: it is absent, a string, or any value whose
  conversion does not throw), the listener sends the request for the whole list after
  its own request. For a signup the refetch is awaited: by the time the listener ends,
  the page shows one card and one option per entry of the answer. For an unregister the
  call is left pending, and the page shows the answer once the reply to the pending call
  arrives.
\<close>

theorem success_triggers_refetch:
  assumes "get_prop result ''message'' = Inr m" and "textContent m = Inr t"
  shows "requests (signup_submit d (Response True (Some result)) d2 reply2 s) =
           requests s @ [POST_signup (activity_value s) (email_value s), GET_activities]
       \<and> activitiesList (signup_submit d (Response True (Some result)) d2 (Response ok2 (Some acts)) s) =
           map (\<lambda>e. Activity_card (activityCard (fst e) (snd e))) acts
       \<and> activitySelect (signup_submit d (Response True (Some result)) d2 (Response ok2 (Some acts)) s) =
           defaultOption # map (\<lambda>e. \<lparr>opt_value = fst e, opt_text = fst e\<rparr>) acts
       \<and> requests (deleteBtn_click name p d (Response True (Some result)) s) =
           requests s @ [DELETE_unregister name p, GET_activities]
       \<and> pending (deleteBtn_click name p d (Response True (Some result)) s) = pending s + 1
       \<and> activitiesList (fetchActivities_settle d2 (Response ok2 (Some acts))
             (deleteBtn_click name p d (Response True (Some result)) s)) =
           map (\<lambda>e. Activity_card (activityCard (fst e) (snd e))) acts
       \<and> activitySelect (fetchActivities_settle d2 (Response ok2 (Some acts))
             (deleteBtn_click name p d (Response True (Some result)) s)) =
           defaultOption # map (\<lambda>e. \<lparr>opt_value = fst e, opt_text = fst e\<rparr>) acts"
proof -
  have p: "pending (deleteBtn_click name p d (Response True (Some result)) s) = pending s + 1"
    by (simp add: deleteBtn_click_ok [OF assms])
  show ?thesis
    unfolding fetchActivities_settle_def p
    by (simp add: signup_submit_ok [OF assms] deleteBtn_click_ok [OF assms]
        fetchActivities_parsed_views fetchActivities_resume_parsed)
qed

theorem success_triggers_refetch_witness:
  "get_prop (Obj [(''message'', Str ''Signed up b@x.com for Chess Club'')]) ''message'' =
     Inr (Str ''Signed up b@x.com for Chess Club'')
   \<and> textContent (Str ''Signed up b@x.com for Chess Club'') = Inr ''Signed up b@x.com for Chess Club''
   \<and> requests (signup_submit 30 (Response True (Some (Obj [(''message'', Str ''Signed up b@x.com for Chess Club'')])))
        20 (Response True (Some example_activities)) example_page) =
       [POST_signup ''Chess Club'' ''b@x.com'', GET_activities]
   \<and> map card_name (cards (activitiesList
        (signup_submit 30 (Response True (Some (Obj [(''message'', Str ''Signed up b@x.com for Chess Club'')])))
          20 (Response True (Some example_activities)) example_page))) =
       [''Chess Club'', ''Art Club'', ''Crowded Club'']
   \<and> requests (deleteBtn_click ''Chess Club'' ''a@x.com'' 30
        (Response True (Some (Obj [(''message'', Str ''Signed up b@x.com for Chess Club'')]))) example_page) =
       [DELETE_unregister ''Chess Club'' ''a@x.com'', GET_activities]
   \<and> map card_name (cards (activitiesList
        (fetchActivities_settle 20 (Response True (Some example_activities))
          (deleteBtn_click ''Chess Club'' ''a@x.com'' 30
            (Response True (Some (Obj [(''message'', Str ''Signed up b@x.com for Chess Club'')])))
            example_page)))) =
       [''Chess Club'', ''Art Club'', ''Crowded Club'']"
proof -
  have h: "get_prop (Obj [(''message'', Str ''Signed up b@x.com for Chess Club'')]) ''message'' =
     Inr (Str ''Signed up b@x.com for Chess Club'')"
    and h': "textContent (Str ''Signed up b@x.com for Chess Club'') =
     Inr ''Signed up b@x.com for Chess Club''"
    by simp_all
  show ?thesis
    using h h' success_triggers_refetch [OF h h', of 30 20 "Response True (Some example_activities)"
        example_page True example_activities "''Chess Club''" "''a@x.com''"]
    by (simp add: example_page_def example_activities_def activityCard_def)
qed

subsection \<open>The form after a signup\<close>

text \<open>
  C6, as stated, fails. A signup answered with the ok flag and the body \<^verbatim>\<open>null\<close>, or with
  a message that cannot be converted to text (an object with a key \<^verbatim>\<open>toString\<close>), throws
  in the first statement of the ok branch, before \<^verbatim>\<open>signupForm.reset()\<close>: the address
  stays in the input although the reply reported success.
\<close>

theorem ok_reply_no_reset_counterexample:
  "email_default example_page = []
   \<and> email_value (signup_submit 30 (Response True (Some Null)) 20
        (Response True (Some example_activities)) example_page) = ''b@x.com''
   \<and> email_value (signup_submit 30
        (Response True (Some (Obj [(''message'', Obj [(''toString'', Str ''x'')])]))) 20
        (Response True (Some example_activities)) example_page) = ''b@x.com''
   \<and> messageDiv_text (signup_submit 30
        (Response True (Some (Obj [(''message'', Obj [(''toString'', Str ''x'')])]))) 20
        (Response True (Some example_activities)) example_page) =
      ''Failed to sign up. Please try again.''"
proof -
  have "signup_try (Response True (Some Null)) 20 (Response True (Some example_activities)) s =
      Inl TypeError" for s
    by (simp add: signup_try_throws)
  moreover have "signup_try (Response True (Some (Obj [(''message'', Obj [(''toString'', Str ''x'')])])))
      20 (Response True (Some example_activities)) s = Inl TypeError" for s
    by (rule signup_try_throws(4) [where m = "Obj [(''toString'', Str ''x'')]"]) simp_all
  ultimately show ?thesis
    by (simp add: signup_submit_thrown example_page_def)
qed

text \<open>
  C6, amended. A signup whose reply has the ok flag and a body from which the message
  can be shown (parsed, not \<^verbatim>\<open>null\<close>, the message convertible to text) resets the form:
  the email input gets its default value back, which is the empty text when the markup
  gives the input no value. A signup that fails (a response without the ok flag, a
  rejected request, a body that does not parse) leaves the email input as it was, and so
  does a reply with the ok flag whose message cannot be read or converted.
\<close>

theorem signup_resets_form_only_on_success:
  "(get_prop result ''message'' = Inr m \<and> textContent m = Inr t \<longrightarrow>
      email_value (signup_submit d (Response True (Some result)) d2 reply2 s) = email_default s)
   \<and> (get_prop result ''message'' = Inr m \<and> textContent m = Inr t \<and> email_default s = [] \<longrightarrow>
      email_value (signup_submit d (Response True (Some result)) d2 reply2 s) = [])
   \<and> email_value (signup_submit d (Response False body) d2 reply2 s) = email_value s
   \<and> email_value (signup_submit d Network_error d2 reply2 s) = email_value s
   \<and> email_value (signup_submit d (Response ok None) d2 reply2 s) = email_value s
   \<and> (get_prop result ''message'' = Inl e \<longrightarrow>
      email_value (signup_submit d (Response True (Some result)) d2 reply2 s) = email_value s)
   \<and> (get_prop result ''message'' = Inr m \<and> textContent m = Inl e \<longrightarrow>
      email_value (signup_submit d (Response True (Some result)) d2 reply2 s) = email_value s)"
  by (simp add: signup_submit_ok signup_submit_not_ok_frame signup_submit_failed
      signup_submit_thrown signup_try_throws)

theorem signup_resets_form_only_on_success_witness:
  "get_prop (Obj [(''message'', Str ''Signed up'')]) ''message'' = Inr (Str ''Signed up'')
   \<and> textContent (Str ''Signed up'') = Inr ''Signed up''
   \<and> email_default example_page = []
   \<and> email_value example_page = ''b@x.com''
   \<and> email_value (signup_submit 30 (Response True (Some (Obj [(''message'', Str ''Signed up'')])))
        20 (Response True (Some example_activities)) example_page) = []
   \<and> email_value (signup_submit 30 (Response False (Some (Obj [(''detail'', Str ''Already signed up'')])))
        20 (Response True (Some example_activities)) example_page) = ''b@x.com''"
  using signup_resets_form_only_on_success [of "Obj [(''message'', Str ''Signed up'')]" "Str ''Signed up''"
      "''Signed up''" 30 20 "Response True (Some example_activities)" example_page
      "Some (Obj [(''detail'', Str ''Already signed up'')])" True TypeError]
  by (simp add: example_page_def)

subsection \<open>No refetch after a failure\<close>

text \<open>
  C9. A signup or an unregister that fails (a response without the ok flag, whatever its
  body; a rejected request; a body that does not parse) sends its own request and no
  other, and leaves the list and the options of the select as they were.
\<close>

theorem failure_triggers_no_refetch:
  "requests (signup_submit d (Response False body) d2 reply2 s) =
     requests s @ [POST_signup (activity_value s) (email_value s)]
   \<and> activitiesList (signup_submit d (Response False body) d2 reply2 s) = activitiesList s
   \<and> activitySelect (signup_submit d (Response False body) d2 reply2 s) = activitySelect s
   \<and> requests (signup_submit d Network_error d2 reply2 s) =
     requests s @ [POST_signup (activity_value s) (email_value s)]
   \<and> activitiesList (signup_submit d Network_error d2 reply2 s) = activitiesList s
   \<and> activitySelect (signup_submit d Network_error d2 reply2 s) = activitySelect s
   \<and> requests (signup_submit d (Response ok None) d2 reply2 s) =
     requests s @ [POST_signup (activity_value s) (email_value s)]
   \<and> activitiesList (signup_submit d (Response ok None) d2 reply2 s) = activitiesList s
   \<and> activitySelect (signup_submit d (Response ok None) d2 reply2 s) = activitySelect s
   \<and> requests (deleteBtn_click name p d (Response False body) s) =
     requests s @ [DELETE_unregister name p]
   \<and> activitiesList (deleteBtn_click name p d (Response False body) s) = activitiesList s
   \<and> activitySelect (deleteBtn_click name p d (Response False body) s) = activitySelect s
   \<and> requests (deleteBtn_click name p d Network_error s) =
     requests s @ [DELETE_unregister name p]
   \<and> activitiesList (deleteBtn_click name p d Network_error s) = activitiesList s
   \<and> activitySelect (deleteBtn_click name p d Network_error s) = activitySelect s
   \<and> requests (deleteBtn_click name p d (Response ok None) s) =
     requests s @ [DELETE_unregister name p]
   \<and> activitiesList (deleteBtn_click name p d (Response ok None) s) = activitiesList s
   \<and> activitySelect (deleteBtn_click name p d (Response ok None) s) = activitySelect s"
  by (simp add: signup_submit_not_ok_frame signup_submit_failed
      deleteBtn_click_not_ok_frame deleteBtn_click_failed)

subsection \<open>The text of an error message\<close>




subsection \<open>The text of a success message\<close>




subsection \<open>Hiding the banner\<close>

lemma elapse_without_timers:
  "timers s = [] \<Longrightarrow> messageDiv_class (elapse t s) = messageDiv_class s"
  by (simp add: messageDiv_class_elapse)

lemma elapse_hides_when_due:
  "x \<in> set (timers s) \<Longrightarrow> x \<le> now s + t \<Longrightarrow> \<not> message_visible (elapse t s)"
  by (auto simp add: message_visible_def messageDiv_class_elapse classList_add_hidden_def)

text \<open>
  After a reply whose text could be set, each listener starts the timer as its last
  step, and the banner is hidden 5 seconds after the listener has ended. The listener
  ends at the moment it sets the text, except after a successful signup, where the
  awaited refetch (\<open>d2\<close> ms) lies between the text and the timer.
\<close>

lemma reply_starts_hide_timer:
  assumes "get_prop result ''detail'' = Inr v"
    and "textContent (js_or v (Str ''An error occurred'')) = Inr t"
    and "textContent (js_or v (Str ''Failed to unregister'')) = Inr t'"
    and "get_prop result ''message'' = Inr m"
    and "textContent m = Inr t''"
  shows "now (signup_submit d (Response False (Some result)) d2 reply2 s) = now s + d"
    and "\<not> message_visible (elapse 5000 (signup_submit d (Response False (Some result)) d2 reply2 s))"
    and "now (deleteBtn_click name p d (Response ok (Some result)) s) = now s + d"
    and "\<not> message_visible (elapse 5000 (deleteBtn_click name p d (Response ok (Some result)) s))"
    and "now (signup_submit d (Response True (Some result)) d2 reply2 s) = now s + d + d2"
    and "\<not> message_visible (elapse 5000 (signup_submit d (Response True (Some result)) d2 reply2 s))"
proof -
  note rej = signup_submit_rejected [OF assms(1,2)]
  note rej' = deleteBtn_click_rejected [OF assms(1,3)]
  note ok = signup_submit_ok [OF assms(4,5)]
  note ok' = deleteBtn_click_ok [OF assms(4,5)]
  show "now (signup_submit d (Response False (Some result)) d2 reply2 s) = now s + d"
    by (simp add: rej)
  show "\<not> message_visible (elapse 5000 (signup_submit d (Response False (Some result)) d2 reply2 s))"
    by (rule elapse_hides_when_due [where x = "now s + d + 5000"]) (simp_all add: rej)
  show "now (deleteBtn_click name p d (Response ok (Some result)) s) = now s + d"
    by (cases ok) (simp_all add: rej' ok')
  show "\<not> message_visible (elapse 5000 (deleteBtn_click name p d (Response ok (Some result)) s))"
    by (rule elapse_hides_when_due [where x = "now s + d + 5000"]; cases ok)
      (simp_all add: rej' ok')
  show "now (signup_submit d (Response True (Some result)) d2 reply2 s) = now s + d + d2"
    by (simp add: ok)
  show "\<not> message_visible (elapse 5000 (signup_submit d (Response True (Some result)) d2 reply2 s))"
    by (rule elapse_hides_when_due [where x = "now s + d + d2 + 5000"]) (simp_all add: ok)
qed

text \<open>
  C4. The \<^verbatim>\<open>catch\<close> blocks set the banner and start no timer. After a signup or an
  unregister whose request is rejected, on a page with no timer pending, the error
  message is shown, no timer is pending, and the banner is visible however much time
  passes.
\<close>

theorem transport_failure_message_stays:
  "messageDiv_text (signup_submit 30 Network_error 20 Network_error example_page) =
     ''Failed to sign up. Please try again.''
   \<and> timers (signup_submit 30 Network_error 20 Network_error example_page) = []
   \<and> (\<forall>t. message_visible (elapse t (signup_submit 30 Network_error 20 Network_error example_page)))
   \<and> messageDiv_text (deleteBtn_click ''Chess Club'' ''a@x.com'' 30 Network_error example_page) =
     ''Failed to unregister. Please try again.''
   \<and> timers (deleteBtn_click ''Chess Club'' ''a@x.com'' 30 Network_error example_page) = []
   \<and> (\<forall>t. message_visible
        (elapse t (deleteBtn_click ''Chess Club'' ''a@x.com'' 30 Network_error example_page)))"
proof -
  have t1: "timers (signup_submit 30 Network_error 20 Network_error example_page) = []"
    by (simp add: signup_submit_failed example_page_def)
  have t2: "timers (deleteBtn_click ''Chess Club'' ''a@x.com'' 30 Network_error example_page) = []"
    by (simp add: deleteBtn_click_failed example_page_def)
  show ?thesis
    by (simp add: t1 t2 message_visible_def elapse_without_timers)
      (simp add: signup_submit_failed deleteBtn_click_failed)
qed

text \<open>
  The successful signup with a refetch that takes a second: the text is set at time 0,
  the listener ends at time 1000, and at time 5500 the banner is still visible.
\<close>

lemma slow_refetch_message_stays:
  "now (signup_submit 0 (Response True (Some (Obj [(''message'', Str ''Signed up'')])))
      1000 (Response True (Some example_activities)) example_page) = 1000
   \<and> message_visible (elapse 4500
      (signup_submit 0 (Response True (Some (Obj [(''message'', Str ''Signed up'')])))
        1000 (Response True (Some example_activities)) example_page))"
  by (simp add: signup_submit_ok message_visible_def messageDiv_class_elapse example_page_def
      fetchActivities_def fetchActivities_resume_parsed)

text \<open>
  A response with the ok flag and the body \<^verbatim>\<open>null\<close> ends in the \<^verbatim>\<open>catch\<close> block like a
  rejected request: \<^verbatim>\<open>result.message\<close> throws in the first statement of the ok branch.
\<close>

lemma ok_reply_without_readable_body:
  "signup_submit d (Response True (Some Null)) d2 reply2 s =
     signup_catch (elapse d (s\<lparr>requests := requests s @ [POST_signup (activity_value s) (email_value s)]\<rparr>))"
  "deleteBtn_click name p d (Response True (Some Null)) s =
     unregister_catch (elapse d (s\<lparr>requests := requests s @ [DELETE_unregister name p]\<rparr>))"
  by (simp_all add: signup_submit_thrown deleteBtn_click_thrown signup_try_throws
      unregister_try_throws)

end
